theory Spec2Isabelle
  imports Complex_Main
begin

section \<open>Python values and exceptions\<close>

text \<open>
  The exceptions the modelled code can raise. Every \<^verbatim>\<open>raise\<close> of the source (and
  every failing builtin) is a value \<open>Inl e\<close> of a sum type.
\<close>

datatype exn =
    AttributeError
  | KeyError
  | ValueError
  | ZeroDivisionError
  | OverflowError
  | TypeError

text \<open>
  A numeric value as Python has it at run time: an unbounded \<^verbatim>\<open>int\<close>, a finite
  \<^verbatim>\<open>float\<close> (every finite double is a real number; the functions below only
  truncate and compare it, so no rounding is involved), or one of the non-finite floats.
\<close>

datatype pynum =
    PyInt int
  | PyFloat real
  | PyInf
  | PyNaN

text \<open>\<^verbatim>\<open>range(a, b)\<close> over Python integers.\<close>

definition py_range :: "int \<Rightarrow> int \<Rightarrow> int list" where
  "py_range a b = [a..b - 1]"

text \<open>
  \<^verbatim>\<open>int(x)\<close> on a finite float truncates toward zero; on \<^verbatim>\<open>inf\<close> it raises
  OverflowError and on \<^verbatim>\<open>nan\<close> ValueError.
\<close>

definition py_trunc :: "real \<Rightarrow> int" where
  "py_trunc r = (if 0 \<le> r then \<lfloor>r\<rfloor> else \<lceil>r\<rceil>)"

fun py_int :: "pynum \<Rightarrow> exn + int" where
  "py_int (PyInt i) = Inr i"
| "py_int (PyFloat r) = Inr (py_trunc r)"
| "py_int PyInf = Inl OverflowError"
| "py_int PyNaN = Inl ValueError"

section \<open>utils/__init__.py\<close>

text \<open>
  \<^verbatim>\<open>
  def mod_1000(value):
      try:
          result = int(value) % 1000
          return result if result >= 0 else result + 1000
      except:
          return 0
  \<close>
\<close>

definition mod_1000 :: "pynum \<Rightarrow> int" where
  "mod_1000 v =
     (case py_int v of
        Inl e \<Rightarrow> 0
      | Inr i \<Rightarrow> (let result = i mod 1000 in if result \<ge> 0 then result else result + 1000))"

section \<open>utils/math_helpers.py\<close>

text \<open>
  \<^verbatim>\<open>
  def extended_gcd(a, b):
      if a == 0:
          return b, 0, 1
      gcd, x1, y1 = extended_gcd(b % a, a)
      x = y1 - (b // a) * x1
      y = x1
      return gcd, x, y
  \<close>
  Python's \<^verbatim>\<open>%\<close> and \<^verbatim>\<open>//\<close> on integers are floor modulus and floor division,
  which is what \<open>mod\<close> and \<open>div\<close> on \<open>int\<close> are.
\<close>

function extended_gcd :: "int \<Rightarrow> int \<Rightarrow> int \<times> int \<times> int" where
  "extended_gcd a b =
     (if a = 0 then (b, 0, 1)
      else (case extended_gcd (b mod a) a of
              (g, x1, y1) \<Rightarrow> (g, y1 - (b div a) * x1, x1)))"
  by pat_completeness auto
termination
  by (relation "measure (\<lambda>(a, b). nat \<bar>a\<bar>)") (auto simp: abs_mod_less)

declare extended_gcd.simps [simp del]

text \<open>
  \<^verbatim>\<open>
  def mod_inverse(a, m):
      g, x, _ = extended_gcd(a, m)
      if g != 1:
          return None
      return (x % m + m) % m
  \<close>
  With \<open>m = 0\<close> and \<open>g = 1\<close> the last line divides by zero.
\<close>

definition mod_inverse :: "int \<Rightarrow> int \<Rightarrow> exn + int option" where
  "mod_inverse a m =
     (case extended_gcd a m of
        (g, x, _) \<Rightarrow>
          if g \<noteq> 1 then Inr None
          else if m = 0 then Inl ZeroDivisionError
          else Inr (Some ((x mod m + m) mod m)))"

text \<open>
  \<^verbatim>\<open>
  def factorial_mod(n, m=1000):
      result = 1
      for i in range(1, min(n + 1, m + 1)):
          result = (result * i) % m
      return result
  \<close>
  For \<open>m \<le> 0\<close> the range is empty, so the body never divides by zero.
\<close>

definition factorial_mod :: "int \<Rightarrow> int \<Rightarrow> int" where
  "factorial_mod n m =
     fold (\<lambda>i result. (result * i) mod m) (py_range 1 (min (n + 1) (m + 1))) 1"

text \<open>
  \<^verbatim>\<open>
  def binomial_mod(n, k, m=1000):
      if k > n:
          return 0
      if k == 0 or k == n:
          return 1
      k = min(k, n - k)
      result = 1
      for i in range(k):
          result = (result * (n - i)) % m
          inv = mod_inverse(i + 1, m)
          if inv is None:
              return 0
          result = (result * inv) % m
      return result
  \<close>
  The loop body is \<open>binomial_step\<close>; \<open>Inr (Inl v)\<close> is the early \<^verbatim>\<open>return v\<close>,
  \<open>Inr (Inr result)\<close> the value carried to the next iteration.
\<close>

definition binomial_step :: "int \<Rightarrow> int \<Rightarrow> int \<Rightarrow> int \<Rightarrow> exn + (int + int)" where
  "binomial_step n m i result =
     (if m = 0 then Inl ZeroDivisionError
      else (let result = (result * (n - i)) mod m in
            case mod_inverse (i + 1) m of
              Inl e \<Rightarrow> Inl e
            | Inr None \<Rightarrow> Inr (Inl 0)
            | Inr (Some inverse_i) \<Rightarrow> Inr (Inr ((result * inverse_i) mod m))))"

fun binomial_loop :: "int \<Rightarrow> int \<Rightarrow> int list \<Rightarrow> int \<Rightarrow> exn + int" where
  "binomial_loop n m [] result = Inr result"
| "binomial_loop n m (i # is) result =
     (case binomial_step n m i result of
        Inl e \<Rightarrow> Inl e
      | Inr (Inl v) \<Rightarrow> Inr v
      | Inr (Inr result') \<Rightarrow> binomial_loop n m is result')"

definition binomial_mod :: "int \<Rightarrow> int \<Rightarrow> int \<Rightarrow> exn + int" where
  "binomial_mod n k m =
     (if k > n then Inr 0
      else if k = 0 \<or> k = n then Inr 1
      else binomial_loop n m (py_range 0 (min k (n - k))) 1)"

section \<open>solvers/combinatorics_solver.py: the counting primitives\<close>

text \<open>
  The builtin \<^verbatim>\<open>pow(b, -1, m)\<close> for \<open>m > 0\<close>: the inverse of \<open>b\<close> modulo \<open>m\<close> in
  \<open>[0, m)\<close>, and ValueError ("base is not invertible for the given modulus") when there
  is none.
\<close>

definition py_pow_inv :: "int \<Rightarrow> int \<Rightarrow> exn + int" where
  "py_pow_inv b m =
     (case find (\<lambda>x. (b * x) mod m = 1 mod m) (py_range 0 m) of
        None \<Rightarrow> Inl ValueError
      | Some x \<Rightarrow> Inr x)"

text \<open>
  \<^verbatim>\<open>
  def _factorial_mod_1000(self, n):
      result = 1
      for i in range(1, min(n + 1, 1001)):
          result = (result * i) % 1000
      return result
  \<close>
\<close>

definition factorial_mod_1000 :: "int \<Rightarrow> int" where
  "factorial_mod_1000 n =
     fold (\<lambda>i result. (result * i) mod 1000) (py_range 1 (min (n + 1) 1001)) 1"

text \<open>
  \<^verbatim>\<open>
  def _permutation(self, n, r=None):
      if r is None:
          r = n
      if r > n:
          return 0
      result = 1
      for i in range(n - r + 1, n + 1):
          result = (result * i) % 1000
      return result
  \<close>
\<close>

definition permutation :: "int \<Rightarrow> int option \<Rightarrow> int" where
  "permutation n r0 =
     (let r = (case r0 of None \<Rightarrow> n | Some r \<Rightarrow> r) in
      if r > n then 0
      else fold (\<lambda>i result. (result * i) mod 1000) (py_range (n - r + 1) (n + 1)) 1)"

text \<open>
  \<^verbatim>\<open>
  def _combination(self, n, r):
      if r > n:
          return 0
      r = min(r, n - r)
      result = 1
      for i in range(r):
          result = (result * (n - i)) % 1000
          result = (result * pow(i + 1, -1, 1000)) % 1000
      return result
  \<close>
\<close>

fun combination_loop :: "int \<Rightarrow> int list \<Rightarrow> int \<Rightarrow> exn + int" where
  "combination_loop n [] result = Inr result"
| "combination_loop n (i # is) result =
     (let result = (result * (n - i)) mod 1000 in
      case py_pow_inv (i + 1) 1000 of
        Inl e \<Rightarrow> Inl e
      | Inr inverse_i \<Rightarrow> combination_loop n is ((result * inverse_i) mod 1000))"

definition combination :: "int \<Rightarrow> int \<Rightarrow> exn + int" where
  "combination n r =
     (if r > n then Inr 0
      else combination_loop n (py_range 0 (min r (n - r))) 1)"

section \<open>solvers/base_solver.py: answer validation\<close>

text \<open>
  \<^verbatim>\<open>float(i)\<close> on a Python integer: exact below \<open>2^53\<close>, otherwise rounded to the
  nearest double (ties to even), and OverflowError when the rounded value does not fit a
  double. \<open>bit_length\<close> is \<^verbatim>\<open>int.bit_length\<close>.
\<close>

function bit_length :: "int \<Rightarrow> nat" where
  "bit_length a = (if a \<le> 0 then 0 else Suc (bit_length (a div 2)))"
  by pat_completeness auto
termination
  by (relation "measure nat") auto

declare bit_length.simps [simp del]

definition py_float_of_int :: "int \<Rightarrow> exn + real" where
  "py_float_of_int i =
     (let a = \<bar>i\<bar> in
      if a < 2 ^ 53 then Inr (real_of_int i)
      else (let e = bit_length a - 53;
                q = a div 2 ^ e;
                rest = a mod 2 ^ e;
                half = 2 ^ (e - 1);
                q' = (if rest > half \<or> (rest = half \<and> odd q) then q + 1 else q);
                v = q' * 2 ^ e
            in if v \<ge> 2 ^ 1024 then Inl OverflowError
               else Inr (real_of_int (sgn i * v))))"

fun py_float :: "pynum \<Rightarrow> exn + pynum" where
  "py_float (PyInt i) = (case py_float_of_int i of Inl e \<Rightarrow> Inl e | Inr r \<Rightarrow> Inr (PyFloat r))"
| "py_float v = Inr v"

text \<open>
  \<^verbatim>\<open>
  def _ensure_valid_answer(self, result):
      try:
          if result is None:
              return 0
          answer = int(float(result)) % 1000
          return answer if answer >= 0 else answer + 1000
      except Exception as e:
          return 0
  \<close>
\<close>

definition ensure_valid_answer :: "pynum option \<Rightarrow> int" where
  "ensure_valid_answer result =
     (case result of
        None \<Rightarrow> 0
      | Some v \<Rightarrow>
          (case py_float v of
             Inl e \<Rightarrow> 0
           | Inr f \<Rightarrow>
               (case py_int f of
                  Inl e \<Rightarrow> 0
                | Inr i \<Rightarrow> (let answer = i mod 1000 in
                            if answer \<ge> 0 then answer else answer + 1000))))"

section \<open>main.py: the problem classifier\<close>

text \<open>
  \<^verbatim>\<open>str.lower()\<close> on text whose letters are ASCII: the 26 capitals are mapped to
  their small letters, every other character is kept. All keywords below are ASCII
  small letters.
\<close>

definition lower_char :: "char \<Rightarrow> char" where
  "lower_char c =
     (case map_of (zip ''ABCDEFGHIJKLMNOPQRSTUVWXYZ'' ''abcdefghijklmnopqrstuvwxyz'') c of
        Some l \<Rightarrow> l
      | None \<Rightarrow> c)"

definition py_lower :: "string \<Rightarrow> string" where
  "py_lower s = map lower_char s"

text \<open>\<^verbatim>\<open>sub in s\<close> on strings: \<open>sub\<close> occurs in \<open>s\<close> as a contiguous substring.\<close>

fun py_in :: "string \<Rightarrow> string \<Rightarrow> bool" where
  "py_in sub [] = (sub = [])"
| "py_in sub (c # cs) = (take (length sub) (c # cs) = sub \<or> py_in sub cs)"

text \<open>\<^verbatim>\<open>max(xs)\<close>: ValueError on an empty sequence.\<close>

fun py_max :: "'a::linorder list \<Rightarrow> exn + 'a" where
  "py_max [] = Inl ValueError"
| "py_max (x # xs) = Inr (fold max xs x)"

text \<open>
  \<^verbatim>\<open>
  def _identify_problem_type(self, problem_text, expressions):
      type_indicators = { 'geometry': [...], 'number_theory': [...], 'sequence': [...],
                          'combinatorics': [...], 'arithmetic': [...] }
      type_scores = {ptype: 0 for ptype in type_indicators}
      text_lower = problem_text.lower()
      for ptype, indicators in type_indicators.items():
          for indicator in indicators:
              if indicator in text_lower:
                  type_scores[ptype] += 1
      max_score = max(type_scores.values())
      if max_score > 0:
          for ptype, score in type_scores.items():
              if score == max_score:
                  return ptype
      return 'pattern'
  \<close>
  The dictionaries keep their insertion order, so they are association lists here. The
  argument \<open>expressions\<close> is not used by the body.
\<close>

definition type_indicators :: "(string \<times> string list) list" where
  "type_indicators =
     [(''geometry'',
        [''triangle'', ''circle'', ''angle'', ''perpendicular'', ''parallel'',
         ''distance'', ''area'', ''point'']),
      (''number_theory'',
        [''divisible'', ''prime'', ''factor'', ''modulo'', ''remainder'',
         ''multiple'', ''gcd'', ''lcm'']),
      (''sequence'',
        [''sequence'', ''series'', ''fibonacci'', ''term'', ''arithmetic'',
         ''geometric'', ''progression'']),
      (''combinatorics'',
        [''ways'', ''arrange'', ''permutation'', ''combination'',
         ''possibility'', ''different'']),
      (''arithmetic'',
        [''sum'', ''product'', ''mean'', ''average'', ''total'',
         ''ratio'', ''proportion''])]"

definition indicator_count :: "string list \<Rightarrow> string \<Rightarrow> int" where
  "indicator_count indicators text_lower =
     fold (\<lambda>indicator score. if py_in indicator text_lower then score + 1 else score)
       indicators 0"

definition type_scores :: "string \<Rightarrow> (string \<times> int) list" where
  "type_scores problem_text =
     (let text_lower = py_lower problem_text in
      map (\<lambda>(ptype, indicators). (ptype, indicator_count indicators text_lower))
        type_indicators)"

definition identify_problem_type :: "string \<Rightarrow> exn + string" where
  "identify_problem_type problem_text =
     (let scores = type_scores problem_text in
      case py_max (map snd scores) of
        Inl e \<Rightarrow> Inl e
      | Inr max_score \<Rightarrow>
          if max_score > 0 then
            (case find (\<lambda>(ptype, score). score = max_score) scores of
               Some (ptype, score) \<Rightarrow> Inr ptype
             | None \<Rightarrow> Inr ''pattern'')
          else Inr ''pattern'')"

text \<open>
  The category names in the order the dictionary iterates them, and the dictionary
  lookup \<^verbatim>\<open>type_scores[ptype]\<close>: the number of keywords of \<open>ptype\<close> that occur in
  the lower-cased text (each keyword counts once, however often it occurs).
\<close>

definition categories :: "string list" where
  "categories = map fst type_indicators"

definition type_score :: "string \<Rightarrow> string \<Rightarrow> int" where
  "type_score ptype problem_text =
     (case map_of (type_scores problem_text) ptype of Some score \<Rightarrow> score | None \<Rightarrow> 0)"


section \<open>Memoized methods of the solvers\<close>

text \<open>
  \<^verbatim>\<open>
  @lru_cache(maxsize=1000)
  def _generate_fibonacci(self, n):
      if n <= 1:
          return n
      a, b = 0, 1
      for _ in range(2, n + 1):
          a, b = b, (a + b) % 1000
      return b
  \<close>
\<close>

definition generate_fibonacci :: "int \<Rightarrow> int" where
  "generate_fibonacci n =
     (if n \<le> 1 then n
      else snd (fold (\<lambda>_ (a, b). (b, (a + b) mod 1000)) (py_range 2 (n + 1)) (0, 1)))"

text \<open>
  \<^verbatim>\<open>functools.lru_cache(maxsize=1000)\<close> around a function \<open>f\<close>: the cache is a list
  of (arguments, result) pairs, most recently used first. A hit returns the stored
  result and moves the entry to the front; a miss calls \<open>f\<close>, stores the result at the
  front and drops the least recently used entry beyond 1000; an exception of \<open>f\<close>
  propagates and nothing is stored.
\<close>

definition lru_cache_call ::
  "('k \<Rightarrow> exn + int) \<Rightarrow> 'k \<Rightarrow> ('k \<times> int) list \<Rightarrow> (exn + int) \<times> ('k \<times> int) list" where
  "lru_cache_call f k cache =
     (case map_of cache k of
        Some v \<Rightarrow> (Inr v, (k, v) # filter (\<lambda>(k', v'). k' \<noteq> k) cache)
      | None \<Rightarrow>
          (case f k of
             Inl e \<Rightarrow> (Inl e, cache)
           | Inr v \<Rightarrow> (Inr v, take 1000 ((k, v) # cache))))"

text \<open>
  The four decorated methods (\<open>_factorial_mod_1000\<close>, \<open>_permutation\<close> and
  \<open>_combination\<close> of the combinatorics solver, \<open>_generate_fibonacci\<close> of the
  sequence solver) each own one cache. These caches and the usage counters are the only
  state that is written after the constructors have run.
\<close>

record caches =
  factorial_cache :: "(int \<times> int) list"
  permutation_cache :: "((int \<times> int option) \<times> int) list"
  combination_cache :: "((int \<times> int) \<times> int) list"
  fibonacci_cache :: "(int \<times> int) list"

datatype memo_call =
    CallFactorialMod1000 int
  | CallPermutation int "int option"
  | CallCombination int int
  | CallGenerateFibonacci int

text \<open>What a call computes without its cache, and the same call through its cache.\<close>

fun call_result :: "memo_call \<Rightarrow> exn + int" where
  "call_result (CallFactorialMod1000 n) = Inr (factorial_mod_1000 n)"
| "call_result (CallPermutation n r) = Inr (permutation n r)"
| "call_result (CallCombination n r) = combination n r"
| "call_result (CallGenerateFibonacci n) = Inr (generate_fibonacci n)"

fun cached_call :: "memo_call \<Rightarrow> caches \<Rightarrow> (exn + int) \<times> caches" where
  "cached_call (CallFactorialMod1000 n) c =
     (case lru_cache_call (\<lambda>n. Inr (factorial_mod_1000 n)) n (factorial_cache c) of
        (r, cache) \<Rightarrow> (r, c\<lparr>factorial_cache := cache\<rparr>))"
| "cached_call (CallPermutation n r) c =
     (case lru_cache_call (\<lambda>(n, r). Inr (permutation n r)) (n, r) (permutation_cache c) of
        (r, cache) \<Rightarrow> (r, c\<lparr>permutation_cache := cache\<rparr>))"
| "cached_call (CallCombination n r) c =
     (case lru_cache_call (\<lambda>(n, r). combination n r) (n, r) (combination_cache c) of
        (r, cache) \<Rightarrow> (r, c\<lparr>combination_cache := cache\<rparr>))"
| "cached_call (CallGenerateFibonacci n) c =
     (case lru_cache_call (\<lambda>n. Inr (generate_fibonacci n)) n (fibonacci_cache c) of
        (r, cache) \<Rightarrow> (r, c\<lparr>fibonacci_cache := cache\<rparr>))"

section \<open>main.py: the dispatcher\<close>

text \<open>
  A solver's \<^verbatim>\<open>solve(problem_text)\<close> as the dispatcher sees it: a computation that is
  determined by the text, that reaches mutable state only by calling the memoized
  methods, and that ends with an exception, with \<^verbatim>\<open>None\<close> or with a number. \<open>Call m k\<close>
  calls the memoized method \<open>m\<close> and continues with \<open>k\<close> applied to what the call
  returned or raised. \<open>run\<close> executes it against the caches; \<open>uncached\<close> is the same
  computation with every memoized method called directly.
\<close>

datatype 'a prog =
    Done 'a
  | Call memo_call "exn + int \<Rightarrow> 'a prog"

primrec run :: "'a prog \<Rightarrow> caches \<Rightarrow> 'a \<times> caches" where
  "run (Done a) = (\<lambda>c. (a, c))"
| "run (Call m k) = (\<lambda>c. case cached_call m c of (r, c') \<Rightarrow> run (k r) c')"

primrec uncached :: "'a prog \<Rightarrow> 'a" where
  "uncached (Done a) = a"
| "uncached (Call m k) = uncached (k (call_result m))"

text \<open>
  \<^verbatim>\<open>
  class AIMOSolver:
      def __init__(self):
          self.solvers = {'pattern': PatternBasedSolver(), 'geometry': GeometrySolver(), ...}
          self.stats = {'problems_processed': 0,
                        'solver_usage': {name: 0 for name in self.solvers},
                        'successful_solves': 0}
  \<close>
\<close>

type_synonym solver = "string \<Rightarrow> (exn + pynum option) prog"

record aimo_solver =
  solvers :: "string \<rightharpoonup> solver"
  problems_processed :: int
  solver_usage :: "string \<rightharpoonup> int"
  successful_solves :: int
  memo :: caches

text \<open>
  \<^verbatim>\<open>
  def solve_problem(self, problem_text):
      try:
          self.stats['problems_processed'] += 1
          expressions = parse_latex(problem_text)
          problem_type = self._identify_problem_type(problem_text, expressions)
          solver = self.solvers[problem_type]
          self.stats['solver_usage'][problem_type] += 1
          result = solver.solve(problem_text)
          if result is not None:
              self.stats['successful_solves'] += 1
              return mod_1000(result)
          if problem_type != 'pattern':
              result = self.solvers['pattern'].solve(problem_text)
              return mod_1000(result) if result is not None else 42
          return 42
      except Exception as e:
          return 42
  \<close>
  \<open>solve_problem_body\<close> is the body of the \<^verbatim>\<open>try\<close>, \<open>solve_problem\<close> adds the handler.
  The outcome of \<^verbatim>\<open>parse_latex\<close> is a parameter; its value is not used by the body.
\<close>

definition solve_problem_body ::
  "(string \<Rightarrow> exn + 'e) \<Rightarrow> aimo_solver \<Rightarrow> string \<Rightarrow> (exn + int) \<times> aimo_solver" where
  "solve_problem_body parse_latex self problem_text =
     (let self = self\<lparr>problems_processed := problems_processed self + 1\<rparr> in
      case parse_latex problem_text of
        Inl e \<Rightarrow> (Inl e, self)
      | Inr expressions \<Rightarrow>
      (case identify_problem_type problem_text of
        Inl e \<Rightarrow> (Inl e, self)
      | Inr problem_type \<Rightarrow>
      (case solvers self problem_type of
        None \<Rightarrow> (Inl KeyError, self)
      | Some solver \<Rightarrow>
      (case solver_usage self problem_type of
        None \<Rightarrow> (Inl KeyError, self)
      | Some usage \<Rightarrow>
         (let self = self\<lparr>solver_usage := (solver_usage self)(problem_type \<mapsto> usage + 1)\<rparr> in
          case run (solver problem_text) (memo self) of
            (outcome, m) \<Rightarrow>
          (let self = self\<lparr>memo := m\<rparr> in
           case outcome of
             Inl e \<Rightarrow> (Inl e, self)
           | Inr (Some result) \<Rightarrow>
               (Inr (mod_1000 result),
                self\<lparr>successful_solves := successful_solves self + 1\<rparr>)
           | Inr None \<Rightarrow>
               if problem_type \<noteq> ''pattern'' then
                 (case solvers self ''pattern'' of
                    None \<Rightarrow> (Inl KeyError, self)
                  | Some pattern_solver \<Rightarrow>
                      (case run (pattern_solver problem_text) (memo self) of
                         (outcome', m') \<Rightarrow>
                       (let self = self\<lparr>memo := m'\<rparr> in
                        case outcome' of
                          Inl e \<Rightarrow> (Inl e, self)
                        | Inr (Some result) \<Rightarrow> (Inr (mod_1000 result), self)
                        | Inr None \<Rightarrow> (Inr 42, self))))
               else (Inr 42, self)))))))"

definition solve_problem ::
  "(string \<Rightarrow> exn + 'e) \<Rightarrow> aimo_solver \<Rightarrow> string \<Rightarrow> int \<times> aimo_solver" where
  "solve_problem parse_latex self problem_text =
     (case solve_problem_body parse_latex self problem_text of
        (Inl e, self') \<Rightarrow> (42, self')
      | (Inr answer, self') \<Rightarrow> (answer, self'))"

section \<open>Cache invariant and the cache-free answer\<close>

text \<open>
  A cache is sound when every stored result is what the function returns on the stored
  arguments. \<open>pure_answer\<close> is \<open>solve_problem_body\<close> with the counters left out and
  every solver run without caches; it depends on the state only through the solver
  table and the key set of \<^verbatim>\<open>solver_usage\<close>, which no call changes.
\<close>

definition cache_ok :: "('k \<Rightarrow> exn + int) \<Rightarrow> ('k \<times> int) list \<Rightarrow> bool" where
  "cache_ok f cache = (\<forall>(k, v)\<in>set cache. f k = Inr v)"

definition valid_caches :: "caches \<Rightarrow> bool" where
  "valid_caches c =
     (cache_ok (\<lambda>n. Inr (factorial_mod_1000 n)) (factorial_cache c) \<and>
      cache_ok (\<lambda>(n, r). Inr (permutation n r)) (permutation_cache c) \<and>
      cache_ok (\<lambda>(n, r). combination n r) (combination_cache c) \<and>
      cache_ok (\<lambda>n. Inr (generate_fibonacci n)) (fibonacci_cache c))"

definition empty_caches :: caches where
  "empty_caches =
     \<lparr>factorial_cache = [], permutation_cache = [], combination_cache = [],
      fibonacci_cache = []\<rparr>"

definition pure_answer ::
  "(string \<Rightarrow> exn + 'e) \<Rightarrow> (string \<rightharpoonup> solver) \<Rightarrow> string set \<Rightarrow> string \<Rightarrow> exn + int" where
  "pure_answer parse_latex slv usage_keys problem_text =
     (case parse_latex problem_text of
        Inl e \<Rightarrow> Inl e
      | Inr expressions \<Rightarrow>
      (case identify_problem_type problem_text of
        Inl e \<Rightarrow> Inl e
      | Inr problem_type \<Rightarrow>
      (case slv problem_type of
        None \<Rightarrow> Inl KeyError
      | Some solver \<Rightarrow>
          if problem_type \<notin> usage_keys then Inl KeyError
          else
            (case uncached (solver problem_text) of
               Inl e \<Rightarrow> Inl e
             | Inr (Some result) \<Rightarrow> Inr (mod_1000 result)
             | Inr None \<Rightarrow>
                 if problem_type \<noteq> ''pattern'' then
                   (case slv ''pattern'' of
                      None \<Rightarrow> Inl KeyError
                    | Some pattern_solver \<Rightarrow>
                        (case uncached (pattern_solver problem_text) of
                           Inl e \<Rightarrow> Inl e
                         | Inr (Some result) \<Rightarrow> Inr (mod_1000 result)
                         | Inr None \<Rightarrow> Inr 42))
                 else Inr 42))))"

text \<open>A one-solver dispatcher used to exercise the theorems on concrete values.\<close>

definition demo_solver :: solver where
  "demo_solver problem_text =
     Call (CallFactorialMod1000 5)
       (\<lambda>r. Done (case r of Inl e \<Rightarrow> Inr None | Inr n \<Rightarrow> Inr (Some (PyInt n))))"

definition demo_aimo :: aimo_solver where
  "demo_aimo =
     \<lparr>solvers = [''pattern'' \<mapsto> demo_solver], problems_processed = 0,
      solver_usage = [''pattern'' \<mapsto> 0], successful_solves = 0, memo = empty_caches\<rparr>"


section \<open>Regular expressions as the solvers use them\<close>

text \<open>
  The patterns of the solvers are built from literals, character classes, greedy
  repetition of a character class (\<^verbatim>\<open>*\<close>, \<^verbatim>\<open>+\<close>, \<^verbatim>\<open>{n}\<close>), optional parts, sequence,
  alternation and capture groups. \<open>rx_match r s\<close> lists every way \<open>r\<close> matches a
  prefix of \<open>s\<close>, as (captured groups, rest of \<open>s\<close>), in the order in which Python's
  backtracking matcher tries them, so its head is the match \<^verbatim>\<open>re\<close> reports. Text is a
  sequence of bytes; the character classes are the ASCII members of \<^verbatim>\<open>\d\<close>,
  \<^verbatim>\<open>[A-Z]\<close> and \<^verbatim>\<open>\s\<close>.
\<close>

datatype rx =
    Lit string
  | OneOf string
  | Star string
  | Plus string
  | Rep nat string
  | Opt rx
  | Seq rx rx
  | Alt rx rx
  | Group rx

definition run_length :: "string \<Rightarrow> string \<Rightarrow> nat" where
  "run_length cs s = length (takeWhile (\<lambda>c. c \<in> set cs) s)"

fun rx_match :: "rx \<Rightarrow> string \<Rightarrow> (string list \<times> string) list" where
  "rx_match (Lit l) s = (if take (length l) s = l then [([], drop (length l) s)] else [])"
| "rx_match (OneOf cs) s =
     (case s of [] \<Rightarrow> [] | c # t \<Rightarrow> if c \<in> set cs then [([], t)] else [])"
| "rx_match (Star cs) s = map (\<lambda>n. ([], drop n s)) (rev [0..<Suc (run_length cs s)])"
| "rx_match (Plus cs) s = map (\<lambda>n. ([], drop n s)) (rev [1..<Suc (run_length cs s)])"
| "rx_match (Rep n cs) s = (if n \<le> run_length cs s then [([], drop n s)] else [])"
| "rx_match (Opt a) s = rx_match a s @ [([], s)]"
| "rx_match (Seq a b) s =
     concat (map (\<lambda>(g1, s1). map (\<lambda>(g2, s2). (g1 @ g2, s2)) (rx_match b s1)) (rx_match a s))"
| "rx_match (Alt a b) s = rx_match a s @ rx_match b s"
| "rx_match (Group a) s =
     map (\<lambda>(g, s'). (take (length s - length s') s # g, s')) (rx_match a s)"

text \<open>
  \<^verbatim>\<open>re.finditer\<close>, \<^verbatim>\<open>re.sub\<close> and \<^verbatim>\<open>str.replace\<close>: leftmost match first, the scan
  resumes where the match ended. None of the patterns below matches the empty string, so
  an empty match is treated as no match at that position.
\<close>

record re_match =
  group0 :: string
  groups :: "string list"

function re_finditer :: "rx \<Rightarrow> string \<Rightarrow> re_match list" where
  "re_finditer r s =
     (case s of
        [] \<Rightarrow> []
      | c # t \<Rightarrow>
          (case rx_match r s of
             (g, s') # _ \<Rightarrow>
               if length s' < length s
               then \<lparr>group0 = take (length s - length s') s, groups = g\<rparr> # re_finditer r s'
               else re_finditer r t
           | [] \<Rightarrow> re_finditer r t))"
  by pat_completeness auto
termination
  by (relation "measure (\<lambda>(r, s). length s)") auto

declare re_finditer.simps [simp del]

function re_sub :: "rx \<Rightarrow> string \<Rightarrow> string \<Rightarrow> string" where
  "re_sub r repl s =
     (case s of
        [] \<Rightarrow> []
      | c # t \<Rightarrow>
          (case rx_match r s of
             (g, s') # _ \<Rightarrow>
               if length s' < length s then repl @ re_sub r repl s'
               else c # re_sub r repl t
           | [] \<Rightarrow> c # re_sub r repl t))"
  by pat_completeness auto
termination
  by (relation "measure (\<lambda>(r, repl, s). length s)") auto

declare re_sub.simps [simp del]

function py_replace :: "string \<Rightarrow> string \<Rightarrow> string \<Rightarrow> string" where
  "py_replace old new s =
     (case s of
        [] \<Rightarrow> []
      | c # t \<Rightarrow>
          if old \<noteq> [] \<and> take (length old) s = old
          then new @ py_replace old new (drop (length old) s)
          else c # py_replace old new t)"
  by pat_completeness auto
termination
  by (relation "measure (\<lambda>(old, new, s). length s)") auto

declare py_replace.simps [simp del]

text \<open>Character classes, \<^verbatim>\<open>str.strip\<close>, and \<^verbatim>\<open>float\<close> of a matched numeric literal.\<close>

definition digits :: string where "digits = ''0123456789''"
definition upper :: string where "upper = ''ABCDEFGHIJKLMNOPQRSTUVWXYZ''"
definition whitespace :: string where
  "whitespace = [CHR '' '', CHR 0x09, CHR 0x0A, CHR 0x0B, CHR 0x0C, CHR 0x0D,
                 CHR 0x1C, CHR 0x1D, CHR 0x1E, CHR 0x1F]"
definition backslash :: char where "backslash = CHR 0x5C"

definition py_strip :: "string \<Rightarrow> string" where
  "py_strip s =
     rev (dropWhile (\<lambda>c. c \<in> set whitespace) (rev (dropWhile (\<lambda>c. c \<in> set whitespace) s)))"

text \<open>
  \<open>float_of_literal\<close> is the decimal value of a literal \<^verbatim>\<open>-?\d*\.?\d+\<close>. Python rounds it
  to the nearest double; for the literals evaluated below (3, 4, 5, 2.5) the double is
  this value.
\<close>

definition digit_value :: "char \<Rightarrow> int" where
  "digit_value c =
     (case map_of (zip ''0123456789'' [0, 1, 2, 3, 4, 5, 6, 7, 8, 9]) c of
        Some d \<Rightarrow> d
      | None \<Rightarrow> 0)"

definition int_of_digits :: "string \<Rightarrow> int" where
  "int_of_digits ds = foldl (\<lambda>acc c. 10 * acc + digit_value c) 0 ds"

definition float_of_literal :: "string \<Rightarrow> real" where
  "float_of_literal s =
     (let negative = (take 1 s = ''-'');
          body = (if negative then drop 1 s else s);
          whole = takeWhile (\<lambda>c. c \<noteq> CHR ''.'') body;
          frac = drop (Suc (length whole)) body;
          v = real_of_int (int_of_digits whole) +
              real_of_int (int_of_digits frac) / 10 ^ length frac
      in if negative then - v else v)"

section \<open>solvers/base_solver.py: preprocessing\<close>

text \<open>
  \<^verbatim>\<open>
  def _clean_text(self, text):
      text = text.replace('\\\\', ' ')
      text = text.replace('\\,', ' ')
      text = re.sub(r'\s+', ' ', text)
      return text.strip()

  def _extract_numbers(self, text):
      numbers = []
      numbers.extend(float(x) for x in re.findall(r'-?\d*\.?\d+', text))
      fractions = re.findall(r'\\frac\{(\d+)\}\{(\d+)\}', text)
      numbers.extend(float(n)/float(d) for n, d in fractions)
      return numbers
  \<close>
  \<open>preprocess\<close> also fills the fields \<^verbatim>\<open>expressions\<close>, \<^verbatim>\<open>latex_commands\<close> and
  \<^verbatim>\<open>problem_type\<close>; they are computed by \<^verbatim>\<open>re.findall\<close> and substring tests that cannot
  raise, and the geometry solver never reads them, so the record keeps the three fields it
  does read.
\<close>

definition number_rx :: rx where
  "number_rx = Seq (Opt (Lit ''-'')) (Seq (Star digits) (Seq (Opt (Lit ''.'')) (Plus digits)))"

definition fraction_rx :: rx where
  "fraction_rx =
     Seq (Lit (backslash # ''frac{'')) (Seq (Group (Plus digits))
       (Seq (Lit ''}{'') (Seq (Group (Plus digits)) (Lit ''}''))))"

record math_problem =
  raw_text :: string
  cleaned_text :: string
  numbers :: "real list"

definition clean_text :: "string \<Rightarrow> string" where
  "clean_text text0 =
     (let text1 = py_replace [backslash, backslash] '' '' text0;
          text2 = py_replace [backslash, CHR '',''] '' '' text1;
          text3 = re_sub (Plus whitespace) '' '' text2
      in py_strip text3)"

fun fraction_values :: "re_match list \<Rightarrow> exn + real list" where
  "fraction_values [] = Inr []"
| "fraction_values (m # ms) =
     (case groups m of
        [n, d] \<Rightarrow>
          if float_of_literal d = 0 then Inl ZeroDivisionError
          else (case fraction_values ms of
                  Inl e \<Rightarrow> Inl e
                | Inr vs \<Rightarrow> Inr (float_of_literal n / float_of_literal d # vs))
      | _ \<Rightarrow> Inl ValueError)"

definition extract_numbers :: "string \<Rightarrow> exn + real list" where
  "extract_numbers text0 =
     (let plain = map (\<lambda>m. float_of_literal (group0 m)) (re_finditer number_rx text0) in
      case fraction_values (re_finditer fraction_rx text0) of
        Inl e \<Rightarrow> Inl e
      | Inr fs \<Rightarrow> Inr (plain @ fs))"

definition preprocess :: "string \<Rightarrow> exn + math_problem" where
  "preprocess problem_text =
     (let cleaned = clean_text problem_text in
      case extract_numbers cleaned of
        Inl e \<Rightarrow> Inl e
      | Inr nums \<Rightarrow>
          Inr \<lparr>raw_text = problem_text, cleaned_text = cleaned, numbers = nums\<rparr>)"

section \<open>solvers/geometry_solver.py\<close>

text \<open>
  The data classes. \<open>properties\<close> of an element holds \<^verbatim>\<open>'vertices'\<close> for a triangle and
  \<^verbatim>\<open>'value'\<close>, \<^verbatim>\<open>'points'\<close> for an angle. The solver object holds the two tables its
  constructor builds; the values of \<open>property_handlers\<close> are bound methods.
\<close>

record geometric_element =
  element_type :: string
  label :: string
  vertices :: "string option"
  angle_value :: "real option"
  points :: "string option"

record geometric_constraint =
  constraint_type :: string
  constraint_elements :: string
  constraint_value :: real

record geometric_problem =
  elements :: "(string \<times> geometric_element) list"
  relationships :: "unit list"
  target_property :: string
  constraints :: "geometric_constraint list"

type_synonym property_handler = "geometric_problem \<Rightarrow> exn + pynum option"

record geometry_solver =
  geometry_patterns :: "(string \<times> rx) list"
  property_handlers :: "string \<rightharpoonup> property_handler"

text \<open>
  The patterns of \<^verbatim>\<open>_initialize_geometry_patterns\<close>, in dictionary order:
  \<^verbatim>\<open>
  'triangle':      r'triangle\s+(?:\\triangle\s+)?([A-Z]{3})'
  'circle':        r'circle|circumcircle|incircle'
  'angle':         r'\\angle\s+([A-Z]{3})\s*=\s*(\d+)'
  'distance':      r'([A-Z]{2})\s*=\s*(\d+)'
  'perpendicular': r'perpendicular|(the perpendicular sign)'
  'parallel':      r'parallel|\|\|'
  \<close>
\<close>

definition triangle_rx :: rx where
  "triangle_rx =
     Seq (Lit ''triangle'') (Seq (Plus whitespace)
       (Seq (Opt (Seq (Lit (backslash # ''triangle'')) (Plus whitespace)))
         (Group (Rep 3 upper))))"

definition circle_rx :: rx where
  "circle_rx = Alt (Lit ''circle'') (Alt (Lit ''circumcircle'') (Lit ''incircle''))"

definition angle_rx :: rx where
  "angle_rx =
     Seq (Lit (backslash # ''angle'')) (Seq (Plus whitespace) (Seq (Group (Rep 3 upper))
       (Seq (Star whitespace) (Seq (Lit ''='') (Seq (Star whitespace) (Group (Plus digits)))))))"

definition distance_rx :: rx where
  "distance_rx =
     Seq (Group (Rep 2 upper)) (Seq (Star whitespace) (Seq (Lit ''='')
       (Seq (Star whitespace) (Group (Plus digits)))))"

definition perpendicular_rx :: rx where
  "perpendicular_rx = Alt (Lit ''perpendicular'') (Lit [CHR 0xE2, CHR 0x8A, CHR 0xA5])"

definition parallel_rx :: rx where
  "parallel_rx = Alt (Lit ''parallel'') (Lit ''||'')"

definition geometry_pattern_table :: "(string \<times> rx) list" where
  "geometry_pattern_table =
     [(''triangle'', triangle_rx), (''circle'', circle_rx), (''angle'', angle_rx),
      (''distance'', distance_rx), (''perpendicular'', perpendicular_rx),
      (''parallel'', parallel_rx)]"

text \<open>
  The constructor. \<^verbatim>\<open>__init__\<close> calls \<^verbatim>\<open>_initialize_geometry_patterns\<close>, whose two
  dictionary literals read, in this order, the attributes
  \<^verbatim>\<open>self._handle_triangle\<close>, \<^verbatim>\<open>_handle_circle\<close>, \<^verbatim>\<open>_handle_angle\<close>,
  \<^verbatim>\<open>_handle_distance\<close>, \<^verbatim>\<open>_handle_perpendicular\<close>, \<^verbatim>\<open>_handle_parallel\<close> and then
  \<^verbatim>\<open>_calculate_area\<close>, \<^verbatim>\<open>_calculate_perimeter\<close>, \<^verbatim>\<open>_calculate_angle\<close>,
  \<^verbatim>\<open>_calculate_distance\<close>, \<^verbatim>\<open>_calculate_ratio\<close>. \<open>class_methods\<close> lists the methods
  that \<^verbatim>\<open>GeometrySolver\<close> defines or inherits from \<^verbatim>\<open>BaseSolver\<close>; reading any other
  attribute of the object raises AttributeError.
\<close>

definition class_methods :: "string list" where
  "class_methods =
     [''__init__'', ''_initialize_geometry_patterns'', ''solve'',
      ''_parse_geometric_problem'', ''_create_geometric_element'',
      ''_extract_geometric_constraints'', ''_identify_target_property'',
      ''_solve_geometric_problem'', ''_calculate_area'', ''_calculate_triangle_area'',
      ''_get_triangle_sides'', ''_get_triangle_angles'', ''_apply_geometric_heuristics'',
      ''__str__'',
      ''initialize'', ''_setup_resources'', ''preprocess'', ''_clean_text'',
      ''_extract_math_expressions'', ''_extract_numbers'', ''_extract_latex_commands'',
      ''_identify_problem_type'', ''_ensure_valid_answer'']"

definition getattr_method :: "string \<Rightarrow> exn + string" where
  "getattr_method name = (if name \<in> set class_methods then Inr name else Inl AttributeError)"

fun getattr_all :: "string list \<Rightarrow> exn + string list" where
  "getattr_all [] = Inr []"
| "getattr_all (name # names) =
     (case getattr_method name of
        Inl e \<Rightarrow> Inl e
      | Inr m \<Rightarrow> (case getattr_all names of Inl e \<Rightarrow> Inl e | Inr ms \<Rightarrow> Inr (m # ms)))"

text \<open>
  \<^verbatim>\<open>
  def _parse_geometric_problem(self, problem):
      elements = {}
      for element_type, pattern in self.geometry_patterns.items():
          for match in re.finditer(pattern['pattern'], problem.cleaned_text):
              element = self._create_geometric_element(element_type, match, problem)
              if element:
                  elements[element.label] = element
      constraints = self._extract_geometric_constraints(problem)
      target = self._identify_target_property(problem)
      return GeometricProblem(elements, [], target, constraints)
  \<close>
  \<^verbatim>\<open>_create_geometric_element\<close> builds an element for a triangle or an angle match; for a
  circle match it reads \<^verbatim>\<open>self._create_circle_element\<close>, which does not exist, and its
  own handler turns the AttributeError into \<^verbatim>\<open>None\<close>; every other type gives \<^verbatim>\<open>None\<close>.
\<close>

definition dict_set :: "'k \<Rightarrow> 'v \<Rightarrow> ('k \<times> 'v) list \<Rightarrow> ('k \<times> 'v) list" where
  "dict_set k v d =
     (if k \<in> fst ` set d then map (\<lambda>(k', v'). if k' = k then (k', v) else (k', v')) d
      else d @ [(k, v)])"

definition create_geometric_element :: "string \<Rightarrow> re_match \<Rightarrow> geometric_element option" where
  "create_geometric_element etype m =
     (if etype = ''triangle'' then
        (case groups m of
           [] \<Rightarrow> None
         | vs # _ \<Rightarrow>
             Some \<lparr>element_type = ''triangle'', label = vs, vertices = Some vs,
                   angle_value = None, points = None\<rparr>)
      else if etype = ''circle'' then None
      else if etype = ''angle'' then
        (case groups m of
           pts # v # _ \<Rightarrow>
             Some \<lparr>element_type = ''angle'', label = ''angle_'' @ pts, vertices = None,
                   angle_value = Some (float_of_literal v), points = Some pts\<rparr>
         | _ \<Rightarrow> None)
      else None)"

definition add_elements ::
  "string \<Rightarrow> re_match list \<Rightarrow> (string \<times> geometric_element) list \<Rightarrow>
   (string \<times> geometric_element) list" where
  "add_elements etype ms els =
     fold (\<lambda>m els. case create_geometric_element etype m of
                      None \<Rightarrow> els
                    | Some element \<Rightarrow> dict_set (label element) element els) ms els"

definition constraint_of :: "string \<Rightarrow> re_match \<Rightarrow> geometric_constraint option" where
  "constraint_of ctype m =
     (case groups m of
        e # v # _ \<Rightarrow>
          Some \<lparr>constraint_type = ctype, constraint_elements = e,
                constraint_value = float_of_literal v\<rparr>
      | _ \<Rightarrow> None)"

definition extract_geometric_constraints :: "math_problem \<Rightarrow> geometric_constraint list" where
  "extract_geometric_constraints problem =
     List.map_filter (constraint_of ''length'')
       (re_finditer distance_rx (cleaned_text problem)) @
     List.map_filter (constraint_of ''angle'')
       (re_finditer angle_rx (cleaned_text problem))"

definition identify_target_property :: "math_problem \<Rightarrow> string" where
  "identify_target_property problem =
     (let text_lower = py_lower (cleaned_text problem) in
      if py_in ''area'' text_lower then ''area''
      else if py_in ''length'' text_lower \<or> py_in ''distance'' text_lower then ''distance''
      else if py_in ''angle'' text_lower then ''angle''
      else if py_in ''ratio'' text_lower then ''ratio''
      else ''unknown'')"

definition scan_elements :: "(string \<times> rx) list \<Rightarrow> string \<Rightarrow> (string \<times> geometric_element) list" where
  "scan_elements table cleaned =
     fold (\<lambda>(etype, pattern) els. add_elements etype (re_finditer pattern cleaned) els) table []"

definition parse_geometric_problem :: "geometry_solver \<Rightarrow> math_problem \<Rightarrow> geometric_problem" where
  "parse_geometric_problem self problem =
     \<lparr>elements = scan_elements (geometry_patterns self) (cleaned_text problem),
      relationships = [],
      target_property = identify_target_property problem,
      constraints = extract_geometric_constraints problem\<rparr>"

text \<open>
  \<^verbatim>\<open>
  def _calculate_triangle_area(self, triangle, constraints):
      try:
          sides = self._get_triangle_sides(triangle, constraints)
          if len(sides) == 3:
              s = sum(sides) / 2
              return math.sqrt(s * (s - sides[0]) * (s - sides[1]) * (s - sides[2]))
          angles = self._get_triangle_angles(triangle, constraints)
          if len(sides) == 2 and len(angles) == 1:
              return 0.5 * sides[0] * sides[1] * math.sin(math.radians(angles[0]))
          return None
      except Exception:
          return None
  \<close>
  A side is known when a length constraint names its two vertices, in either order.
  \<^verbatim>\<open>math.sqrt\<close> and \<^verbatim>\<open>math.sin\<close> are the real functions here.
\<close>

definition first_constraint ::
  "(geometric_constraint \<Rightarrow> bool) \<Rightarrow> geometric_constraint list \<Rightarrow> real option" where
  "first_constraint P cs = map_option constraint_value (find P cs)"

definition get_triangle_sides ::
  "geometric_element \<Rightarrow> geometric_constraint list \<Rightarrow> exn + real list" where
  "get_triangle_sides triangle cs =
     (case vertices triangle of
        None \<Rightarrow> Inl KeyError
      | Some vs \<Rightarrow>
          if length vs < 3 then Inl ValueError
          else Inr (List.map_filter
                 (\<lambda>i. let side = [vs ! i, vs ! ((i + 1) mod 3)] in
                      first_constraint
                        (\<lambda>c. constraint_type c = ''length'' \<and>
                             (constraint_elements c = side \<or> constraint_elements c = rev side))
                        cs)
                 [0, 1, 2]))"

definition get_triangle_angles ::
  "geometric_element \<Rightarrow> geometric_constraint list \<Rightarrow> exn + real list" where
  "get_triangle_angles triangle cs =
     (case vertices triangle of
        None \<Rightarrow> Inl KeyError
      | Some vs \<Rightarrow>
          if length vs < 3 then Inl ValueError
          else Inr (List.map_filter
                 (\<lambda>i. let angle_vertices = [vs ! ((i + 2) mod 3), vs ! i, vs ! ((i + 1) mod 3)] in
                      first_constraint
                        (\<lambda>c. constraint_type c = ''angle'' \<and>
                             constraint_elements c = angle_vertices)
                        cs)
                 [0, 1, 2]))"

definition calculate_triangle_area ::
  "geometric_element \<Rightarrow> geometric_constraint list \<Rightarrow> real option" where
  "calculate_triangle_area triangle cs =
     (case get_triangle_sides triangle cs of
        Inl e \<Rightarrow> None
      | Inr sides \<Rightarrow>
          if length sides = 3 then
            (let s = sum_list sides / 2;
                 v = s * (s - sides ! 0) * (s - sides ! 1) * (s - sides ! 2)
             in if v < 0 then None else Some (sqrt v))
          else
            (case get_triangle_angles triangle cs of
               Inl e \<Rightarrow> None
             | Inr angles \<Rightarrow>
                 if length sides = 2 \<and> length angles = 1 then
                   Some (0.5 * (sides ! 0) * (sides ! 1) * sin (angles ! 0 * pi / 180))
                 else None))"

definition calculate_area :: property_handler where
  "calculate_area geo_problem =
     (case find (\<lambda>elem. element_type elem = ''triangle'') (map snd (elements geo_problem)) of
        Some triangle \<Rightarrow>
          Inr (map_option PyFloat (calculate_triangle_area triangle (constraints geo_problem)))
      | None \<Rightarrow> Inr None)"

text \<open>
  \<^verbatim>\<open>
  def _solve_geometric_problem(self, geo_problem):
      try:
          handler = self.property_handlers.get(geo_problem.target_property)
          if handler:
              return handler(geo_problem)
          return self._solve_general_geometry(geo_problem)
      except Exception:
          return None
  \<close>
  \<^verbatim>\<open>_solve_general_geometry\<close> does not exist either: reading it raises AttributeError, which
  the handler turns into \<^verbatim>\<open>None\<close>.
\<close>

definition solve_geometric_problem :: "geometry_solver \<Rightarrow> geometric_problem \<Rightarrow> pynum option" where
  "solve_geometric_problem self geo_problem =
     (case property_handlers self (target_property geo_problem) of
        Some handler \<Rightarrow> (case handler geo_problem of Inl e \<Rightarrow> None | Inr r \<Rightarrow> r)
      | None \<Rightarrow> None)"

text \<open>
  \<^verbatim>\<open>
  def _apply_geometric_heuristics(self, problem):
      text_lower = problem.cleaned_text.lower()
      numbers = problem.numbers
      if not numbers:
          return 42
      if 'triangle' in text_lower:
          if 'right' in text_lower or 'perpendicular' in text_lower:
              return 90
          if 'equilateral' in text_lower:
              return 60
          return max(numbers) % 1000
      if 'circle' in text_lower:
          if 'diameter' in text_lower or 'radius' in text_lower:
              for num in numbers:
                  if num > 10:
                      return int(num) % 1000
          return 360
      return max(numbers) % 1000
  \<close>
  \<open>py_float_mod\<close> is \<^verbatim>\<open>%\<close> on floats with a positive modulus.
\<close>

definition py_float_mod :: "real \<Rightarrow> real \<Rightarrow> real" where
  "py_float_mod x m = x - m * real_of_int \<lfloor>x / m\<rfloor>"

definition apply_geometric_heuristics :: "math_problem \<Rightarrow> exn + pynum" where
  "apply_geometric_heuristics problem =
     (let text_lower = py_lower (cleaned_text problem);
          nums = numbers problem
      in if nums = [] then Inr (PyInt 42)
         else if py_in ''triangle'' text_lower then
           (if py_in ''right'' text_lower \<or> py_in ''perpendicular'' text_lower
            then Inr (PyInt 90)
            else if py_in ''equilateral'' text_lower then Inr (PyInt 60)
            else (case py_max nums of
                    Inl e \<Rightarrow> Inl e
                  | Inr m \<Rightarrow> Inr (PyFloat (py_float_mod m 1000))))
         else if py_in ''circle'' text_lower then
           (if py_in ''diameter'' text_lower \<or> py_in ''radius'' text_lower
            then (case find (\<lambda>num. num > 10) nums of
                    Some num \<Rightarrow> Inr (PyInt (py_trunc num mod 1000))
                  | None \<Rightarrow> Inr (PyInt 360))
            else Inr (PyInt 360))
         else (case py_max nums of
                 Inl e \<Rightarrow> Inl e
               | Inr m \<Rightarrow> Inr (PyFloat (py_float_mod m 1000))))"

text \<open>
  \<^verbatim>\<open>
  def solve(self, question):
      try:
          problem = self.preprocess(question)
          geo_problem = self._parse_geometric_problem(problem)
          result = self._solve_geometric_problem(geo_problem)
          if result is not None:
              return self._ensure_valid_answer(result)
          return self._apply_geometric_heuristics(problem)
      except Exception as e:
          return 42
  \<close>
\<close>

definition GeometrySolver_solve :: "geometry_solver \<Rightarrow> string \<Rightarrow> pynum" where
  "GeometrySolver_solve self question =
     (case preprocess question of
        Inl e \<Rightarrow> PyInt 42
      | Inr problem \<Rightarrow>
          (let geo_problem = parse_geometric_problem self problem;
               result = solve_geometric_problem self geo_problem
           in case result of
                Some r \<Rightarrow> PyInt (ensure_valid_answer (Some r))
              | None \<Rightarrow>
                  (case apply_geometric_heuristics problem of
                     Inl e \<Rightarrow> PyInt 42
                   | Inr answer \<Rightarrow> answer)))"

text \<open>
  The constructor proper. \<open>bound\<close> gives the bound method for a method name; it is
  only consulted once every attribute has been found.
\<close>

definition initialize_geometry_patterns ::
  "(string \<Rightarrow> property_handler) \<Rightarrow> exn + geometry_solver" where
  "initialize_geometry_patterns bound =
     (case getattr_all
             [''_handle_triangle'', ''_handle_circle'', ''_handle_angle'', ''_handle_distance'',
              ''_handle_perpendicular'', ''_handle_parallel''] of
        Inl e \<Rightarrow> Inl e
      | Inr pattern_handlers \<Rightarrow>
          (case getattr_all
                  [''_calculate_area'', ''_calculate_perimeter'', ''_calculate_angle'',
                   ''_calculate_distance'', ''_calculate_ratio''] of
             Inl e \<Rightarrow> Inl e
           | Inr hs \<Rightarrow>
               Inr \<lparr>geometry_patterns = geometry_pattern_table,
                    property_handlers =
                      map_of (zip [''area'', ''perimeter'', ''angle'', ''distance'', ''ratio'']
                                  (map bound hs))\<rparr>))"

definition GeometrySolver_init :: "(string \<Rightarrow> property_handler) \<Rightarrow> exn + geometry_solver" where
  "GeometrySolver_init bound = initialize_geometry_patterns bound"

text \<open>
  Two problem texts, and a solver object with the tables as the source writes them: the
  pattern table, and a handler table that maps \<^verbatim>\<open>'area'\<close> to \<open>_calculate_area\<close> and is
  arbitrary elsewhere (the other four handlers do not exist in the source). \<open>solver_of\<close>
  presents a \<^verbatim>\<open>solve\<close> method to the dispatcher.
\<close>

definition triangle_345 :: string where
  "triangle_345 = ''Triangle ABC has sides of length 3, 4, and 5. Find its area.''"

definition triangle_side :: string where
  "triangle_side = ''area of a triangle with side 2.5''"

definition geometry_solver_object :: "(string \<rightharpoonup> property_handler) \<Rightarrow> geometry_solver" where
  "geometry_solver_object hs =
     \<lparr>geometry_patterns = geometry_pattern_table,
      property_handlers = hs(''area'' \<mapsto> calculate_area)\<rparr>"

definition solver_of :: "(string \<Rightarrow> pynum) \<Rightarrow> solver" where
  "solver_of solve problem_text = Done (Inr (Some (solve problem_text)))"


section \<open>Properties of the modular arithmetic layer\<close>

lemma py_range_snoc: "a \<le> b \<Longrightarrow> py_range a (b + 1) = py_range a b @ [b]"
  by (simp add: py_range_def upto_rec2)

lemma py_range_Cons: "a < b \<Longrightarrow> py_range a b = a # py_range (a + 1) b"
  by (simp add: py_range_def upto_rec1)

lemma py_range_empty: "b \<le> a \<Longrightarrow> py_range a b = []"
  by (simp add: py_range_def)

lemma mod_1000_range: "0 \<le> mod_1000 v \<and> mod_1000 v \<le> 999"
  by (cases v) (simp_all add: mod_1000_def Let_def)

lemma ensure_valid_answer_range: "0 \<le> ensure_valid_answer x \<and> ensure_valid_answer x \<le> 999"
  by (auto simp: ensure_valid_answer_def Let_def split: option.splits sum.splits)

subsection \<open>Modular normalization\<close>

lemma ceil_neg_half: "\<lceil>- (1 / 2) :: real\<rceil> = 0"
  by (rule ceiling_unique) simp_all

lemma floor_neg_half: "\<lfloor>- (1 / 2) :: real\<rfloor> = - 1"
  by (rule floor_unique) simp_all

lemma floor_five_halves: "\<lfloor>5 / 2 :: real\<rfloor> = 2"
  by (rule floor_unique) simp_all

lemma py_trunc_floor: "0 \<le> r \<or> r \<in> \<int> \<Longrightarrow> py_trunc r = \<lfloor>r\<rfloor>"
  by (auto simp: py_trunc_def elim: Ints_cases)

text \<open>
  Claim C4, as stated, at \<open>r = -0.5\<close>: \<^verbatim>\<open>int(-0.5)\<close> is \<open>0\<close>, so both \<open>mod_1000\<close> and
  the solvers' answer validation return \<open>0\<close>, while the formula with \<open>floor\<close> gives
  \<open>999\<close>.
\<close>

theorem normalization_floor_counterexample:
  "mod_1000 (PyFloat (- 1 / 2)) = 0 \<and>
   ensure_valid_answer (Some (PyFloat (- 1 / 2))) = 0 \<and>
   ((\<lfloor>- 1 / 2 :: real\<rfloor> mod 1000) + 1000) mod 1000 = 999"
  by (simp add: mod_1000_def ensure_valid_answer_def py_trunc_def ceil_neg_half floor_neg_half)

text \<open>
  Claim C4, amended: for every finite float result \<open>r\<close>, \<open>mod_1000\<close> and the solvers'
  answer validation return the truncation of \<open>r\<close> toward zero reduced modulo 1000; this
  value is always in \<open>[0, 999]\<close>, and it equals \<open>((floor(r) % 1000) + 1000) % 1000\<close>
  whenever \<open>r\<close> is non-negative or integer-valued. The statement is about float results
  only: on an \<^verbatim>\<open>int\<close> result the answer validation converts with \<^verbatim>\<open>float\<close> first, which
  rounds from \<open>2^53\<close> on (\<open>ensure_valid_answer_int\<close> below).
\<close>

theorem normalization_truncates:
  "mod_1000 (PyFloat r) = py_trunc r mod 1000 \<and>
   ensure_valid_answer (Some (PyFloat r)) = py_trunc r mod 1000 \<and>
   0 \<le> py_trunc r mod 1000 \<and> py_trunc r mod 1000 \<le> 999 \<and>
   (0 \<le> r \<or> r \<in> \<int> \<longrightarrow> py_trunc r mod 1000 = ((\<lfloor>r\<rfloor> mod 1000) + 1000) mod 1000)"
  by (simp add: mod_1000_def ensure_valid_answer_def Let_def py_trunc_floor)

theorem normalization_truncates_witness:
  "mod_1000 (PyFloat (5 / 2)) = 2 \<and> ensure_valid_answer (Some (PyFloat (5 / 2))) = 2 \<and>
   ((\<lfloor>5 / 2 :: real\<rfloor> mod 1000) + 1000) mod 1000 = 2 \<and>
   mod_1000 (PyFloat (- 3)) = 997 \<and> ((\<lfloor>- 3 :: real\<rfloor> mod 1000) + 1000) mod 1000 = 997"
  using normalization_truncates [of "5 / 2"] normalization_truncates [of "- 3"]
  by (simp add: py_trunc_def floor_five_halves)

text \<open>
  An \<^verbatim>\<open>int\<close> result: \<open>mod_1000\<close> reduces it as it is; the answer validation does the
  same while \<^verbatim>\<open>float\<close> is exact on it, that is below \<open>2^53\<close> in absolute value.
\<close>

lemma ensure_valid_answer_int:
  "mod_1000 (PyInt i) = i mod 1000 \<and>
   (\<bar>i\<bar> < 2 ^ 53 \<longrightarrow> ensure_valid_answer (Some (PyInt i)) = i mod 1000)"
  by (simp add: mod_1000_def ensure_valid_answer_def py_float_of_int_def py_trunc_def Let_def)

subsection \<open>Factorial modulo 1000\<close>

lemma fact_fold_step:
  assumes "1 \<le> n"
  shows "fold (\<lambda>i result. (result * i) mod m) (py_range 1 (n + 1)) 1 =
         (fold (\<lambda>i result. (result * i) mod m) (py_range 1 n) 1 * n) mod m"
  using assms by (simp add: py_range_snoc)

lemma fact_fold_1000:
  "fold (\<lambda>i result. (result * i) mod 1000) (py_range 1 1001) (1::int) = 0"
proof -
  have "fold (\<lambda>i result. (result * i) mod 1000) (py_range 1 (1000 + 1)) (1::int) =
        (fold (\<lambda>i result. (result * i) mod 1000) (py_range 1 1000) 1 * 1000) mod 1000"
    by (rule fact_fold_step) simp
  then show ?thesis by simp
qed

text \<open>
  Claim C8: \<open>factorial_mod(0, 1000) = 1\<close> and, for every \<open>n \<ge> 1\<close>,
  \<open>factorial_mod(n, 1000) = (factorial_mod(n - 1, 1000) * n) % 1000\<close>; the same for the
  combinatorics solver's \<open>_factorial_mod_1000\<close>. Past the truncation bound of the loop
  both sides are \<open>0\<close>, because the product up to 1000 already is.
\<close>

theorem factorial_mod_recurrence:
  "factorial_mod 0 1000 = 1 \<and>
   (\<forall>n\<ge>1. factorial_mod n 1000 = (factorial_mod (n - 1) 1000 * n) mod 1000) \<and>
   factorial_mod_1000 0 = 1 \<and>
   (\<forall>n\<ge>1. factorial_mod_1000 n = (factorial_mod_1000 (n - 1) * n) mod 1000)"
proof -
  have base:
    "fold (\<lambda>i result. (result * i) mod 1000) (py_range 1 (min (0 + 1) 1001)) (1::int) = 1"
    by (simp add: py_range_empty)
  have step:
    "fold (\<lambda>i result. (result * i) mod 1000) (py_range 1 (min (n + 1) 1001)) (1::int) =
     (fold (\<lambda>i result. (result * i) mod 1000) (py_range 1 (min (n - 1 + 1) 1001)) 1 * n)
       mod 1000"
    if "1 \<le> n" for n :: int
  proof (cases "n \<le> 1000")
    case True
    with that show ?thesis by (simp add: fact_fold_step)
  next
    case False
    then have "min (n + 1) 1001 = 1001" "min (n - 1 + 1) 1001 = 1001" by simp_all
    then show ?thesis by (simp add: fact_fold_1000)
  qed
  show ?thesis
    unfolding factorial_mod_def factorial_mod_1000_def
    using base step by simp
qed

theorem factorial_mod_recurrence_witness:
  "factorial_mod 1500 1000 = (factorial_mod 1499 1000 * 1500) mod 1000 \<and>
   factorial_mod_1000 1 = (factorial_mod_1000 0 * 1) mod 1000"
proof -
  have a: "(1::int) \<le> 1500" and b: "(1::int) \<le> 1" by simp_all
  from factorial_mod_recurrence a b show ?thesis by force
qed

subsection \<open>Binomial coefficients\<close>

lemma mod_inverse_1: "mod_inverse 1 1000 = Inr (Some 1)"
  by (simp add: mod_inverse_def extended_gcd.simps)

lemma mod_inverse_2: "mod_inverse 2 1000 = Inr None"
  by (simp add: mod_inverse_def extended_gcd.simps)

lemma pow_inv_1: "py_pow_inv 1 1000 = Inr 1"
proof -
  have "py_range 0 1000 = 0 # py_range 1 1000"
    using py_range_Cons [of 0 1000] by simp
  moreover have "py_range 1 1000 = 1 # py_range 2 1000"
    using py_range_Cons [of 1 1000] by simp
  ultimately have "py_range 0 1000 = 0 # 1 # py_range 2 1000"
    by simp
  then show ?thesis by (simp add: py_pow_inv_def)
qed

lemma pow_inv_2: "py_pow_inv 2 1000 = Inl ValueError"
proof -
  have "(2 * x) mod 1000 \<noteq> 1" for x :: int
  proof
    assume h: "(2 * x) mod 1000 = 1"
    have "(2::int) dvd (2 * x) mod 1000" by (rule dvd_mod) simp_all
    with h show False by simp
  qed
  then have "find (\<lambda>x. (2 * x) mod 1000 = 1 mod 1000) (py_range 0 1000) = None"
    by (simp add: find_None_iff)
  then show ?thesis by (simp add: py_pow_inv_def)
qed

text \<open>
  When \<open>min(r, n - r) \<ge> 2\<close> the second iteration of \<open>_combination\<close> evaluates
  \<^verbatim>\<open>pow(2, -1, 1000)\<close>, which raises ValueError: the method returns a value only for
  \<open>r > n\<close> or \<open>min(r, n - r) \<le> 1\<close>.
\<close>

lemma combination_raises:
  assumes "0 \<le> r" "r \<le> n" "2 \<le> min r (n - r)"
  shows "combination n r = Inl ValueError"
proof -
  let ?j = "min r (n - r)"
  have rg: "py_range 0 ?j = 0 # 1 # py_range 2 ?j"
    using assms by (simp add: py_range_Cons)
  have "\<not> r > n" using assms by simp
  then show ?thesis
    unfolding combination_def
    by (simp add: rg pow_inv_1 pow_inv_2 del: min_less_iff_conj)
qed

text \<open>
  Claim C6: when the number to select exceeds the total, \<open>binomial_mod\<close> (for every
  modulus), \<open>_combination\<close> and \<open>_permutation\<close> return \<open>0\<close> and raise nothing. The
  non-negativity of the two arguments is not needed.
\<close>

theorem select_exceeds_total:
  assumes "n < r"
  shows "binomial_mod n r m = Inr 0 \<and> combination n r = Inr 0 \<and> permutation n (Some r) = 0"
  using assms by (simp add: binomial_mod_def combination_def permutation_def)

theorem select_exceeds_total_witness:
  "binomial_mod 3 5 1000 = Inr 0 \<and> combination 3 5 = Inr 0 \<and> permutation 3 (Some 5) = 0"
proof -
  have h: "(3::int) < 5" by simp
  show ?thesis using select_exceeds_total [OF h] by simp
qed

text \<open>
  For \<open>0 \<le> r \<le> n\<close> the two calls \<open>(n, r)\<close> and \<open>(n, n - r)\<close> have the same outcome,
  for \<open>binomial_mod\<close> and for \<open>_combination\<close>: the same returned value, or the same
  raised exception.
\<close>

lemma combination_outcome_symmetry:
  assumes "0 \<le> r" "r \<le> n"
  shows "binomial_mod n r 1000 = binomial_mod n (n - r) 1000 \<and>
         combination n r = combination n (n - r)"
  using assms by (auto simp: binomial_mod_def combination_def min.commute)

text \<open>
  Claim C7, on the code: \<open>_combination(4, 2)\<close> and \<open>_combination(4, 4 - 2)\<close> both raise
  ValueError at \<^verbatim>\<open>pow(2, -1, 1000)\<close>, so neither call returns a value that the claimed
  \<open>==\<close> could compare (the value should be \<open>6\<close>). By \<open>combination_raises\<close> the same
  happens whenever \<open>min(r, n - r) \<ge> 2\<close>.
\<close>

theorem combination_4_2_raises:
  "combination 4 2 = Inl ValueError \<and> combination 4 (4 - 2) = Inl ValueError"
  using combination_raises [of 2 4] by simp

text \<open>
  Claim C10: for \<open>0 \<le> k \<le> n\<close> with \<open>min(k, n - k) \<ge> 2\<close>, \<open>binomial_mod(n, k, 1000)\<close>
  returns \<open>0\<close>: the second iteration asks for the inverse of \<open>2\<close> modulo \<open>1000\<close>,
  there is none, and the function returns \<open>0\<close>.
\<close>

theorem binomial_mod_zero:
  assumes "0 \<le> k" "k \<le> n" "2 \<le> min k (n - k)"
  shows "binomial_mod n k 1000 = Inr 0"
proof -
  let ?j = "min k (n - k)"
  have r: "py_range 0 ?j = 0 # 1 # py_range 2 ?j"
    using assms by (simp add: py_range_Cons)
  have k: "\<not> k > n" "\<not> (k = 0 \<or> k = n)" using assms by auto
  show ?thesis
    unfolding binomial_mod_def using k
    by (simp add: r binomial_step_def mod_inverse_1 mod_inverse_2 del: min_less_iff_conj)
qed

theorem binomial_mod_zero_witness: "binomial_mod 4 2 1000 = Inr 0"
proof -
  have h: "(0::int) \<le> 2" "(2::int) \<le> 4" "(2::int) \<le> min 2 (4 - 2)" by simp_all
  show ?thesis using binomial_mod_zero [OF h] .
qed

section \<open>The problem classifier\<close>

lemma py_max_Max:
  assumes "xs \<noteq> []"
  shows "py_max xs = Inr (Max (set xs))"
proof (cases xs)
  case Nil
  with assms show ?thesis by simp
next
  case (Cons a list)
  then show ?thesis using Max.set_eq_fold [of a list] by simp
qed

lemma indicator_count_nonneg_aux:
  "0 \<le> a \<Longrightarrow> 0 \<le> fold (\<lambda>indicator score. if py_in indicator t then score + 1 else score) xs (a::int)"
  by (induction xs arbitrary: a) auto

lemma indicator_count_nonneg: "0 \<le> indicator_count xs t"
  by (simp add: indicator_count_def indicator_count_nonneg_aux)

lemma find_first_max:
  fixes sc :: "(string \<times> int) list"
  assumes ne: "sc \<noteq> []" and m: "m = Max (set (map snd sc))"
  shows "\<exists>i<length sc. find (\<lambda>(p, s). s = m) sc = Some (sc ! i) \<and>
           snd (sc ! i) = m \<and>
           (\<forall>j<length sc. snd (sc ! j) \<le> m) \<and>
           (\<forall>j<i. snd (sc ! j) < m)"
proof -
  define P where "P = (\<lambda>ps :: string \<times> int. snd ps = m)"
  have Peq: "(\<lambda>(p, s). s = m) = P" by (auto simp: P_def)
  have le: "snd (sc ! j) \<le> m" if "j < length sc" for j
    unfolding m using that by (intro Max_ge) auto
  have "m \<in> set (map snd sc)" unfolding m using ne by (intro Max_in) auto
  then obtain y where y: "y \<in> set sc" "snd y = m" by auto
  then have "find P sc \<noteq> None" unfolding find_None_iff P_def by blast
  then obtain x where x: "find P sc = Some x" by blast
  from x [unfolded find_Some_iff] obtain i
    where i: "i < length sc" "P (sc ! i)" "x = sc ! i" "\<forall>j<i. \<not> P (sc ! j)"
    by blast
  have mi: "snd (sc ! i) = m" using i(2) by (simp add: P_def)
  have lt: "snd (sc ! j) < m" if "j < i" for j
  proof -
    from that i(1) have "j < length sc" by simp
    then have "snd (sc ! j) \<le> m" by (rule le)
    moreover from i(4) that have "snd (sc ! j) \<noteq> m" by (simp add: P_def)
    ultimately show ?thesis by simp
  qed
  have f: "find P sc = Some (sc ! i)" using x i(3) by simp
  show ?thesis
    unfolding Peq using i(1) f mi le lt by (intro exI [of _ i]) simp
qed

lemma categories_eq:
  "categories = [''geometry'', ''number_theory'', ''sequence'', ''combinatorics'', ''arithmetic'']"
  by (simp add: categories_def type_indicators_def)

lemma map_fst_type_scores: "map fst (type_scores t) = categories"
  by (simp add: type_scores_def categories_def case_prod_beta comp_def)

lemma type_scores_nth:
  assumes "k < length categories"
  shows "type_scores t ! k = (categories ! k, type_score (categories ! k) t)"
proof -
  have d: "distinct (map fst (type_scores t))"
    by (simp add: map_fst_type_scores categories_eq)
  have len: "length (type_scores t) = length categories"
    using arg_cong [OF map_fst_type_scores [of t], of length] by simp
  have f: "fst (type_scores t ! k) = categories ! k"
    using assms len arg_cong [OF map_fst_type_scores [of t], of "\<lambda>xs. xs ! k"] by simp
  have "type_scores t ! k \<in> set (type_scores t)" using assms len by simp
  then have "map_of (type_scores t) (fst (type_scores t ! k)) = Some (snd (type_scores t ! k))"
    using d by (simp add: map_of_eq_Some_iff)
  then have "type_score (categories ! k) t = snd (type_scores t ! k)"
    by (simp add: type_score_def f)
  with f show ?thesis by (simp add: prod_eq_iff)
qed

lemma type_score_nonneg: "0 \<le> type_score c t"
proof (cases "map_of (type_scores t) c")
  case None
  then show ?thesis by (simp add: type_score_def)
next
  case (Some s)
  then have "(c, s) \<in> set (type_scores t)" by (rule map_of_SomeD)
  then have "0 \<le> s" by (auto simp: type_scores_def indicator_count_nonneg)
  with Some show ?thesis by (simp add: type_score_def)
qed

text \<open>
  Claim C3, amended: the classifier always returns a category name. It returns
  \<open>pattern\<close> exactly when no keyword of any category occurs in the lower-cased text;
  otherwise it returns the first category, in the order geometry, number_theory,
  sequence, combinatorics, arithmetic, whose score is the maximum: no category scores
  higher and every earlier category scores strictly lower. A tie at a positive maximum
  goes to the earliest tied category. The score of a category is the number of its
  keywords that occur in the text.
\<close>

theorem identify_problem_type_first_highest:
  "\<exists>p. identify_problem_type t = Inr p \<and>
     (if \<forall>c\<in>set categories. type_score c t = 0 then p = ''pattern''
      else \<exists>i<length categories. p = categories ! i \<and>
             (\<forall>c\<in>set categories. type_score c t \<le> type_score p t) \<and>
             (\<forall>j<i. type_score (categories ! j) t < type_score p t))"
proof -
  define sc where "sc = type_scores t"
  define m where "m = Max (set (map snd sc))"
  have len: "length sc = length categories"
    unfolding sc_def using arg_cong [OF map_fst_type_scores [of t], of length] by simp
  have ne: "sc \<noteq> []" using len by (auto simp: categories_eq)
  have mx: "py_max (map snd sc) = Inr m" unfolding m_def using ne by (simp add: py_max_Max)
  from find_first_max [OF ne m_def] obtain i where i: "i < length sc"
    "find (\<lambda>(p, s). s = m) sc = Some (sc ! i)" "snd (sc ! i) = m"
    "\<forall>j<length sc. snd (sc ! j) \<le> m" "\<forall>j<i. snd (sc ! j) < m"
    by blast
  have nth: "sc ! k = (categories ! k, type_score (categories ! k) t)"
    if "k < length categories" for k unfolding sc_def using that by (rule type_scores_nth)
  have il: "i < length categories" using i(1) len by simp
  have mi: "m = type_score (categories ! i) t" using i(3) nth [OF il] by simp
  have all_le: "type_score c t \<le> m" if "c \<in> set categories" for c
  proof -
    from that obtain k where k: "k < length categories" "c = categories ! k"
      by (auto simp: in_set_conv_nth)
    from k(1) len have "k < length sc" by simp
    with i(4) have "snd (sc ! k) \<le> m" by blast
    then show ?thesis using nth [OF k(1)] k(2) by simp
  qed
  have before: "type_score (categories ! j) t < m" if "j < i" for j
  proof -
    from that il have jl: "j < length categories" by simp
    from i(5) that have "snd (sc ! j) < m" by blast
    then show ?thesis using nth [OF jl] by simp
  qed
  have ident: "identify_problem_type t =
     (if m > 0 then Inr (categories ! i) else Inr ''pattern'')"
    using mx i(2) nth [OF il]
    by (simp add: identify_problem_type_def sc_def [symmetric])
  show ?thesis
  proof (cases "\<forall>c\<in>set categories. type_score c t = 0")
    case True
    then have "type_score (categories ! i) t = 0" using il by simp
    then have "m = 0" using mi by simp
    then have "identify_problem_type t = Inr ''pattern''" using ident by simp
    with True show ?thesis by simp
  next
    case False
    then obtain c where c: "c \<in> set categories" "type_score c t \<noteq> 0" by blast
    then have "0 < type_score c t" using type_score_nonneg [of c t] by simp
    with all_le [OF c(1)] have "0 < m" by simp
    then have r: "identify_problem_type t = Inr (categories ! i)" using ident by simp
    have le': "\<forall>c\<in>set categories. type_score c t \<le> type_score (categories ! i) t"
      using all_le unfolding mi by blast
    have lt': "\<forall>j<i. type_score (categories ! j) t < type_score (categories ! i) t"
      using before unfolding mi by blast
    from il le' lt' have "\<exists>k<length categories. categories ! i = categories ! k \<and>
        (\<forall>c\<in>set categories. type_score c t \<le> type_score (categories ! i) t) \<and>
        (\<forall>j<k. type_score (categories ! j) t < type_score (categories ! i) t)"
      by blast
    with False r show ?thesis by simp blast
  qed
qed

lemma scores_gcd_sum:
  "type_scores ''gcd sum'' =
     [(''geometry'', 0), (''number_theory'', 1), (''sequence'', 0),
      (''combinatorics'', 0), (''arithmetic'', 1)]"
  by (simp add: type_scores_def type_indicators_def indicator_count_def py_lower_def lower_char_def)

text \<open>
  Claim C3, as stated, at the text \<open>gcd sum\<close>: number_theory and arithmetic tie at
  the maximum score 1, and the classifier returns number_theory, not \<open>pattern\<close>.
\<close>

theorem identify_problem_type_tie_counterexample:
  "identify_problem_type ''gcd sum'' = Inr ''number_theory'' \<and>
   type_score ''geometry'' ''gcd sum'' = 0 \<and>
   type_score ''number_theory'' ''gcd sum'' = 1 \<and>
   type_score ''sequence'' ''gcd sum'' = 0 \<and>
   type_score ''combinatorics'' ''gcd sum'' = 0 \<and>
   type_score ''arithmetic'' ''gcd sum'' = 1"
  by (simp add: identify_problem_type_def type_score_def scores_gcd_sum)

theorem identify_problem_type_first_highest_witness:
  "identify_problem_type ''gcd sum'' = Inr (categories ! 1)"
  using identify_problem_type_first_highest [of "''gcd sum''"]
  by (simp add: identify_problem_type_def scores_gcd_sum categories_eq)

section \<open>The dispatcher\<close>

text \<open>
  Claim C1: for every input text, whatever the solvers and \<^verbatim>\<open>parse_latex\<close> return or
  raise and whatever the state of the counters and caches, \<open>solve_problem\<close> returns an
  integer \<open>n\<close> with \<open>0 \<le> n \<le> 999\<close>. Its result type has no exception: every solver
  result passes through \<open>mod_1000\<close> and every exception of the body becomes \<open>42\<close>.
\<close>

theorem solve_problem_in_range:
  "0 \<le> fst (solve_problem parse_latex self problem_text) \<and>
   fst (solve_problem parse_latex self problem_text) \<le> 999"
proof -
  have "\<forall>n. fst (solve_problem_body parse_latex self problem_text) = Inr n \<longrightarrow> 0 \<le> n \<and> n \<le> 999"
    using mod_1000_range
    by (auto simp: solve_problem_body_def Let_def split: sum.splits option.splits prod.splits if_splits)
  then show ?thesis
    by (auto simp: solve_problem_def split: sum.splits prod.splits)
qed


lemma lru_cache_call_sound:
  assumes "cache_ok f cache"
  shows "fst (lru_cache_call f k cache) = f k \<and> cache_ok f (snd (lru_cache_call f k cache))"
proof (cases "map_of cache k")
  case None
  show ?thesis
  proof (cases "f k")
    case (Inl e)
    with None assms show ?thesis by (simp add: lru_cache_call_def)
  next
    case (Inr v)
    have "cache_ok f (take 1000 ((k, v) # cache))"
      unfolding cache_ok_def
    proof
      fix x assume "x \<in> set (take 1000 ((k, v) # cache))"
      then have "x \<in> set ((k, v) # cache)" by (rule in_set_takeD)
      with assms Inr show "case x of (k, v) \<Rightarrow> f k = Inr v"
        by (auto simp: cache_ok_def)
    qed
    with None Inr show ?thesis by (simp add: lru_cache_call_def)
  qed
next
  case (Some v)
  then have "(k, v) \<in> set cache" by (rule map_of_SomeD)
  with assms have fk: "f k = Inr v" by (auto simp: cache_ok_def)
  have "cache_ok f ((k, v) # filter (\<lambda>(k', v'). k' \<noteq> k) cache)"
    using assms fk by (auto simp: cache_ok_def)
  with Some fk show ?thesis by (simp add: lru_cache_call_def)
qed

lemma cached_call_sound:
  assumes "valid_caches c"
  shows "fst (cached_call m c) = call_result m \<and> valid_caches (snd (cached_call m c))"
proof (cases m)
  case (CallFactorialMod1000 n)
  from assms have "cache_ok (\<lambda>n. Inr (factorial_mod_1000 n)) (factorial_cache c)"
    by (simp add: valid_caches_def)
  from lru_cache_call_sound [OF this, of n] assms CallFactorialMod1000 show ?thesis
    by (auto simp: valid_caches_def split: prod.splits)
next
  case (CallPermutation n r)
  from assms have "cache_ok (\<lambda>(n, r). Inr (permutation n r)) (permutation_cache c)"
    by (simp add: valid_caches_def)
  from lru_cache_call_sound [OF this, of "(n, r)"] assms CallPermutation show ?thesis
    by (auto simp: valid_caches_def split: prod.splits)
next
  case (CallCombination n r)
  from assms have "cache_ok (\<lambda>(n, r). combination n r) (combination_cache c)"
    by (simp add: valid_caches_def)
  from lru_cache_call_sound [OF this, of "(n, r)"] assms CallCombination show ?thesis
    by (auto simp: valid_caches_def split: prod.splits)
next
  case (CallGenerateFibonacci n)
  from assms have "cache_ok (\<lambda>n. Inr (generate_fibonacci n)) (fibonacci_cache c)"
    by (simp add: valid_caches_def)
  from lru_cache_call_sound [OF this, of n] assms CallGenerateFibonacci show ?thesis
    by (auto simp: valid_caches_def split: prod.splits)
qed

lemma run_sound:
  "valid_caches c \<Longrightarrow> fst (run p c) = uncached p \<and> valid_caches (snd (run p c))"
proof (induction p arbitrary: c)
  case (Done a)
  then show ?case by simp
next
  case (Call m k)
  obtain r c' where rc: "cached_call m c = (r, c')" by (cases "cached_call m c")
  with cached_call_sound [OF Call.prems, of m] have r: "r = call_result m" and v: "valid_caches c'"
    by simp_all
  have "k r \<in> range k" by simp
  from Call.IH [OF this v] rc r show ?case by simp
qed

lemma valid_empty_caches: "valid_caches empty_caches"
  by (simp add: valid_caches_def empty_caches_def cache_ok_def)


lemma solve_problem_body_pure:
  assumes v: "valid_caches (memo self)"
  shows "fst (solve_problem_body P self t) =
           pure_answer P (solvers self) (dom (solver_usage self)) t \<and>
         solvers (snd (solve_problem_body P self t)) = solvers self \<and>
         dom (solver_usage (snd (solve_problem_body P self t))) = dom (solver_usage self) \<and>
         valid_caches (memo (snd (solve_problem_body P self t)))"
proof (cases "P t")
  case (Inl e)
  with v show ?thesis by (simp add: solve_problem_body_def pure_answer_def)
next
  case pt: (Inr ex)
  show ?thesis
  proof (cases "identify_problem_type t")
    case (Inl e)
    with v pt show ?thesis by (simp add: solve_problem_body_def pure_answer_def)
  next
    case ty: (Inr ptype)
    show ?thesis
    proof (cases "solvers self ptype")
      case None
      with v pt ty show ?thesis by (simp add: solve_problem_body_def pure_answer_def)
    next
      case sv: (Some solver)
      show ?thesis
      proof (cases "solver_usage self ptype")
        case None
        then have "ptype \<notin> dom (solver_usage self)" by (simp add: domIff)
        with None v pt ty sv show ?thesis
          by (simp add: solve_problem_body_def pure_answer_def)
      next
        case us: (Some usage)
        then have mem: "ptype \<in> dom (solver_usage self)" by (simp add: domIff)
        then have ins: "insert ptype (dom (solver_usage self)) = dom (solver_usage self)"
          by (rule insert_absorb)
        obtain o1 m1 where r1: "run (solver t) (memo self) = (o1, m1)"
          by (cases "run (solver t) (memo self)")
        from run_sound [OF v, of "solver t"] r1
        have o1: "uncached (solver t) = o1" and v1: "valid_caches m1" by simp_all
        note facts = pt ty sv us mem ins r1 o1 v1
        show ?thesis
        proof (cases o1)
          case (Inl e)
          with facts show ?thesis
            by (simp add: solve_problem_body_def pure_answer_def)
        next
          case oo: (Inr ro)
          show ?thesis
          proof (cases ro)
            case (Some result)
            with facts oo show ?thesis
              by (simp add: solve_problem_body_def pure_answer_def)
          next
            case rn: None
            show ?thesis
            proof (cases "ptype = ''pattern''")
              case True
              with facts oo rn show ?thesis
                by (simp add: solve_problem_body_def pure_answer_def)
            next
              case np: False
              show ?thesis
              proof (cases "solvers self ''pattern''")
                case None
                with facts oo rn np show ?thesis
                  by (simp add: solve_problem_body_def pure_answer_def)
              next
                case ps: (Some pattern_solver)
                obtain o2 m2 where r2: "run (pattern_solver t) m1 = (o2, m2)"
                  by (cases "run (pattern_solver t) m1")
                from run_sound [OF v1, of "pattern_solver t"] r2
                have o2: "uncached (pattern_solver t) = o2" and v2: "valid_caches m2"
                  by simp_all
                from facts oo rn np ps r2 o2 v2 show ?thesis
                  by (simp add: solve_problem_body_def pure_answer_def
                      split: sum.splits option.splits)
              qed
            qed
          qed
        qed
      qed
    qed
  qed
qed

lemma solve_problem_pure:
  assumes v: "valid_caches (memo self)"
  shows "fst (solve_problem P self t) =
           (case pure_answer P (solvers self) (dom (solver_usage self)) t of
              Inl e \<Rightarrow> 42 | Inr answer \<Rightarrow> answer) \<and>
         solvers (snd (solve_problem P self t)) = solvers self \<and>
         dom (solver_usage (snd (solve_problem P self t))) = dom (solver_usage self) \<and>
         valid_caches (memo (snd (solve_problem P self t)))"
proof -
  obtain r s where b: "solve_problem_body P self t = (r, s)"
    by (cases "solve_problem_body P self t")
  from solve_problem_body_pure [OF v, of P t] b show ?thesis
    by (cases "pure_answer P (solvers self) (dom (solver_usage self)) t")
       (simp_all add: solve_problem_def)
qed

text \<open>
  Claim C9: from every state whose caches are sound, two successive calls of
  \<open>solve_problem\<close> with the same text return the same answer, although the first call
  has changed the counters and the caches; and the first call leaves the caches sound,
  so the same holds for every later pair of calls. The caches are sound when the object
  is created (they are empty) and stay so (\<open>solve_problem_pure\<close>).
\<close>

theorem solve_problem_idempotent:
  assumes "valid_caches (memo self)"
  shows "fst (solve_problem parse_latex (snd (solve_problem parse_latex self problem_text))
                problem_text) =
         fst (solve_problem parse_latex self problem_text) \<and>
         valid_caches (memo (snd (solve_problem parse_latex self problem_text)))"
proof -
  let ?self' = "snd (solve_problem parse_latex self problem_text)"
  note first = solve_problem_pure [OF assms, of parse_latex problem_text]
  then have v': "valid_caches (memo ?self')" by simp
  from solve_problem_pure [OF v', of parse_latex problem_text] first
  show ?thesis by simp
qed


lemma demo_first_call:
  "fst (solve_problem (\<lambda>t. Inr ()) demo_aimo ''hello'') = 120 \<and>
   factorial_cache (memo (snd (solve_problem (\<lambda>t. Inr ()) demo_aimo ''hello''))) = [(5, 120)]
   \<and> problems_processed (snd (solve_problem (\<lambda>t. Inr ()) demo_aimo ''hello'')) = 1"
  by code_simp

theorem solve_problem_idempotent_witness:
  "fst (solve_problem (\<lambda>t. Inr ())
         (snd (solve_problem (\<lambda>t. Inr ()) demo_aimo ''hello'')) ''hello'') = 120 \<and>
   fst (solve_problem (\<lambda>t. Inr ()) demo_aimo ''hello'') = 120"
proof -
  have v: "valid_caches (memo demo_aimo)"
    by (simp add: demo_aimo_def valid_empty_caches)
  from solve_problem_idempotent [OF v, of "\<lambda>t. Inr ()" "''hello''"] demo_first_call
  show ?thesis by simp
qed

section \<open>The geometry solver\<close>

lemma getattr_fails: "GeometrySolver_init bound = Inl AttributeError"
  by (simp add: GeometrySolver_init_def initialize_geometry_patterns_def getattr_method_def
      class_methods_def)

lemma clean_345: "clean_text triangle_345 = triangle_345"
  by code_simp

lemma literals_345:
  "map group0 (re_finditer number_rx triangle_345) = [''3'', ''4'', ''5'']"
  "re_finditer fraction_rx triangle_345 = []"
  by code_simp+

lemma scan_345:
  "scan_elements geometry_pattern_table triangle_345 = []"
  "re_finditer distance_rx triangle_345 = []"
  "re_finditer angle_rx triangle_345 = []"
  by code_simp+

lemma words_345:
  "py_in ''area'' (py_lower triangle_345)"
  "py_in ''triangle'' (py_lower triangle_345)"
  "\<not> py_in ''right'' (py_lower triangle_345)"
  "\<not> py_in ''perpendicular'' (py_lower triangle_345)"
  "\<not> py_in ''equilateral'' (py_lower triangle_345)"
  by code_simp+

lemma float_literals:
  "float_of_literal ''3'' = 3" "float_of_literal ''4'' = 4" "float_of_literal ''5'' = 5"
  "float_of_literal ''2.5'' = 5 / 2"
  by (simp_all add: float_of_literal_def int_of_digits_def digit_value_def)

lemma float_mod_small: "0 \<le> x \<Longrightarrow> x < 1000 \<Longrightarrow> py_float_mod x 1000 = x"
proof -
  assume "0 \<le> x" "x < 1000"
  then have "\<lfloor>x / 1000\<rfloor> = 0" by (intro floor_unique) simp_all
  then show ?thesis by (simp add: py_float_mod_def)
qed

lemma preprocess_345:
  "preprocess triangle_345 =
     Inr \<lparr>raw_text = triangle_345, cleaned_text = triangle_345, numbers = [3, 4, 5]\<rparr>"
proof -
  have "map (\<lambda>m. float_of_literal (group0 m)) (re_finditer number_rx triangle_345) =
        map float_of_literal (map group0 (re_finditer number_rx triangle_345))"
    by simp
  then have "extract_numbers triangle_345 = Inr [3, 4, 5]"
    unfolding extract_numbers_def literals_345 by (simp add: float_literals)
  then show ?thesis by (simp add: preprocess_def clean_345)
qed

lemma solve_without_triangle_element:
  assumes gp: "geometry_patterns self = geometry_pattern_table"
    and ph: "property_handlers self ''area'' = Some calculate_area"
    and pre: "preprocess q = Inr p"
    and scan: "scan_elements geometry_pattern_table (cleaned_text p) = []"
    and area: "py_in ''area'' (py_lower (cleaned_text p))"
  shows "GeometrySolver_solve self q =
           (case apply_geometric_heuristics p of Inl e \<Rightarrow> PyInt 42 | Inr answer \<Rightarrow> answer)"
proof -
  have el: "elements (parse_geometric_problem self p) = []"
    using scan gp by (simp add: parse_geometric_problem_def)
  have tp: "target_property (parse_geometric_problem self p) = ''area''"
    using area by (simp add: parse_geometric_problem_def identify_target_property_def)
  have "calculate_area (parse_geometric_problem self p) = Inr None"
    by (simp add: calculate_area_def el)
  then have res: "solve_geometric_problem self (parse_geometric_problem self p) = None"
    by (simp add: solve_geometric_problem_def tp ph)
  show ?thesis
    by (simp add: GeometrySolver_solve_def pre res)
qed

lemma object_tables:
  "geometry_patterns (geometry_solver_object hs) = geometry_pattern_table"
  "property_handlers (geometry_solver_object hs) ''area'' = Some calculate_area"
  by (simp_all add: geometry_solver_object_def)

lemma solve_345:
  "GeometrySolver_solve (geometry_solver_object hs) triangle_345 = PyFloat 5"
proof -
  have "py_float_mod 5 1000 = 5" by (rule float_mod_small) simp_all
  then have h: "apply_geometric_heuristics
      \<lparr>raw_text = triangle_345, cleaned_text = triangle_345, numbers = [3, 4, 5]\<rparr> =
      Inr (PyFloat 5)"
    by (simp add: apply_geometric_heuristics_def words_345)
  show ?thesis
    using solve_without_triangle_element [OF object_tables preprocess_345, of hs]
    by (simp add: scan_345 words_345 h)
qed

lemma classify_345: "identify_problem_type triangle_345 = Inr ''geometry''"
  by code_simp

text \<open>
  Claim C5, on the code: for the text
  \<open>Triangle ABC has sides of length 3, 4, and 5. Find its area.\<close> the classifier selects
  geometry. The geometry solver cannot be constructed (AttributeError). On an object
  carrying the tables of the source, no pattern finds a triangle element (the pattern
  wants a small \<open>t\<close>) and no length constraint is found, so the area handler returns
  \<^verbatim>\<open>None\<close> and the heuristic returns the largest literal: \<open>solve\<close> returns \<open>5.0\<close> and
  the dispatcher returns \<open>5\<close>, not \<open>6\<close>.
\<close>

theorem triangle_345_pipeline:
  "identify_problem_type triangle_345 = Inr ''geometry'' \<and>
   GeometrySolver_init bound = Inl AttributeError \<and>
   GeometrySolver_solve (geometry_solver_object hs) triangle_345 = PyFloat 5 \<and>
   fst (solve_problem (\<lambda>t. Inr expressions)
          \<lparr>solvers = slv(''geometry'' \<mapsto> solver_of (GeometrySolver_solve (geometry_solver_object hs))),
           problems_processed = n, solver_usage = usage(''geometry'' \<mapsto> u),
           successful_solves = k, memo = c\<rparr>
          triangle_345) = 5"
proof -
  have m: "mod_1000 (PyFloat 5) = 5" by (simp add: mod_1000_def py_trunc_def)
  have "fst (solve_problem (\<lambda>t. Inr expressions)
          \<lparr>solvers = slv(''geometry'' \<mapsto> solver_of (GeometrySolver_solve (geometry_solver_object hs))),
           problems_processed = n, solver_usage = usage(''geometry'' \<mapsto> u),
           successful_solves = k, memo = c\<rparr>
          triangle_345) = 5"
    by (simp add: solve_problem_def solve_problem_body_def classify_345 solver_of_def
        solve_345 m)
  with classify_345 getattr_fails solve_345 show ?thesis by simp
qed

lemma clean_side: "clean_text triangle_side = triangle_side"
  by code_simp

lemma literals_side:
  "map group0 (re_finditer number_rx triangle_side) = [''2.5'']"
  "re_finditer fraction_rx triangle_side = []"
  by code_simp+

lemma scan_side: "scan_elements geometry_pattern_table triangle_side = []"
  by code_simp

lemma words_side:
  "py_in ''area'' (py_lower triangle_side)"
  "py_in ''triangle'' (py_lower triangle_side)"
  "\<not> py_in ''right'' (py_lower triangle_side)"
  "\<not> py_in ''perpendicular'' (py_lower triangle_side)"
  "\<not> py_in ''equilateral'' (py_lower triangle_side)"
  by code_simp+

lemma preprocess_side:
  "preprocess triangle_side =
     Inr \<lparr>raw_text = triangle_side, cleaned_text = triangle_side, numbers = [5 / 2]\<rparr>"
proof -
  have "map (\<lambda>m. float_of_literal (group0 m)) (re_finditer number_rx triangle_side) =
        map float_of_literal (map group0 (re_finditer number_rx triangle_side))"
    by simp
  then have "extract_numbers triangle_side = Inr [5 / 2]"
    unfolding extract_numbers_def literals_side by (simp add: float_literals)
  then show ?thesis by (simp add: preprocess_def clean_side)
qed

text \<open>
  Claim C2, on the code: constructing the geometry solver raises AttributeError; and on
  an object carrying the tables of the source, \<open>solve\<close> on the text
  \<open>area of a triangle with side 2.5\<close> returns the float \<open>2.5\<close>, which is not an
  integer.
\<close>

theorem geometry_solver_not_integer:
  "GeometrySolver_init bound = Inl AttributeError \<and>
   GeometrySolver_solve (geometry_solver_object hs) triangle_side = PyFloat (5 / 2)"
proof -
  have "py_float_mod (5 / 2) 1000 = 5 / 2" by (rule float_mod_small) simp_all
  then have h: "apply_geometric_heuristics
      \<lparr>raw_text = triangle_side, cleaned_text = triangle_side, numbers = [5 / 2]\<rparr> =
      Inr (PyFloat (5 / 2))"
    by (simp add: apply_geometric_heuristics_def words_side)
  have "GeometrySolver_solve (geometry_solver_object hs) triangle_side = PyFloat (5 / 2)"
    using solve_without_triangle_element [OF object_tables preprocess_side, of hs]
    by (simp add: scan_side words_side h)
  with getattr_fails show ?thesis by simp
qed

end
